theory Spec2Isabelle
  imports Main "HOL-Library.Word" "HOL-Library.Multiset" "HOL-Library.Sublist"
begin

unbundle bit_operations_syntax

section \<open>Shared types of the filter API\<close>

text \<open>
  Both filters receive a \<^verbatim>\<open>GWBUF\<close> and hand one on to the downstream component.
  The buffer type and the \<^verbatim>\<open>modutil_*\<close> readers live in the server core, so the
  model keeps of a buffer exactly what the filters observe of it:
  what \<^verbatim>\<open>modutil_is_SQL\<close> and \<^verbatim>\<open>modutil_is_SQL_prepare\<close> answer, the
  statement text that \<^verbatim>\<open>modutil_extract_SQL\<close> / \<^verbatim>\<open>modutil_get_SQL\<close> deliver
  (\<open>None\<close> when they fail), and the chain of routing hints, head first.
\<close>

datatype HINT_TYPE =
    HINT_ROUTE_TO_MASTER
  | HINT_ROUTE_TO_SLAVE
  | HINT_ROUTE_TO_NAMED_SERVER
  | HINT_ROUTE_TO_UPTODATE_SERVER
  | HINT_ROUTE_TO_ALL
  | HINT_PARAMETER

record HINT =
  hint_type :: HINT_TYPE
  hint_data :: string

record GWBUF =
  is_SQL :: bool
  is_SQL_prepare :: bool
  sql_text :: "string option"
  hint :: "HINT list"

definition modutil_is_SQL :: "GWBUF \<Rightarrow> bool" where
  "modutil_is_SQL buf = is_SQL buf"

definition modutil_is_SQL_prepare :: "GWBUF \<Rightarrow> bool" where
  "modutil_is_SQL_prepare buf = is_SQL_prepare buf"

definition modutil_extract_SQL :: "GWBUF \<Rightarrow> string option" where
  "modutil_extract_SQL buf = sql_text buf"

definition modutil_get_SQL :: "GWBUF \<Rightarrow> string option" where
  "modutil_get_SQL buf = sql_text buf"

text \<open>
  \<^verbatim>\<open>hint_create_route(head, type, data)\<close> is a function of the server core and not
  among the sources: it allocates one hint with the given type and data and links it in
  front of the chain it is given, returning the new head. Allocation is taken to
  succeed.
\<close>

definition hint_create_route :: "HINT list \<Rightarrow> HINT_TYPE \<Rightarrow> string \<Rightarrow> HINT list" where
  "hint_create_route head ty data = \<lparr>hint_type = ty, hint_data = data\<rparr> # head"

section \<open>namedserverfilter\<close>

subsection \<open>Data\<close>

text \<open>
  A compiled regular expression (\<^verbatim>\<open>pcre2_code*\<close>) is a value of an arbitrary type
  \<open>'r\<close>; the PCRE2 library enters as two parameters, \<open>pcre2_compile\<close> (pattern to
  compiled regex, \<open>None\<close> when the pattern is invalid) and \<open>pcre2_match\<close>
  (compiled regex and subject to the integer result of the library call).
\<close>

record 'r RegexToServers =
  m_match :: string
  m_regex :: 'r
  m_servers :: "string list"

record REGEXHINT_SOURCE_HOST =
  address :: "string option"
  ipv4 :: "32 word"
  netmask :: int

record 'r RegexHintInst =
  m_user :: string
  m_source :: "REGEXHINT_SOURCE_HOST option"
  m_mapping :: "'r RegexToServers list"
  m_ovector_size :: int
  m_total_diverted :: "32 word"
  m_total_undiverted :: "32 word"

text \<open>
  The session counters are C \<^verbatim>\<open>int\<close>s: 32-bit words, read as signed with \<open>sint\<close>.
\<close>

record RegexHintSess =
  n_diverted :: "32 word"
  n_undiverted :: "32 word"
  active :: int
  regex_error_printed :: bool

definition PCRE2_ERROR_NOMATCH :: int where
  "PCRE2_ERROR_NOMATCH = -1"

subsection \<open>find_servers and routeQuery\<close>

text \<open>
  \<^verbatim>\<open>find_servers\<close> walks the mapping in order. The out-parameter \<open>servers\<close> is
  passed in and returned next to the result code.
\<close>

fun find_servers ::
  "('r \<Rightarrow> string \<Rightarrow> int) \<Rightarrow> 'r RegexToServers list \<Rightarrow> string list \<Rightarrow> string
    \<Rightarrow> int \<times> string list" where
  "find_servers pcre2_match [] servers sql = (PCRE2_ERROR_NOMATCH, servers)"
| "find_servers pcre2_match (e # es) servers sql =
     (let result = pcre2_match (m_regex e) sql in
      if result \<ge> 0 then (result, m_servers e)
      else if result = PCRE2_ERROR_NOMATCH then find_servers pcre2_match es servers sql
      else (result, servers))"

text \<open>The loop of \<^verbatim>\<open>routeQuery\<close> that adds one hint per server of the list.\<close>

fun add_hints :: "HINT list \<Rightarrow> string list \<Rightarrow> HINT list" where
  "add_hints h [] = h"
| "add_hints h (s # ss) = add_hints (hint_create_route h HINT_ROUTE_TO_NAMED_SERVER s) ss"

text \<open>
  The result of \<^verbatim>\<open>routeQuery\<close>: the updated instance and session, and the buffer
  that is handed to \<^verbatim>\<open>my_session->down.routeQuery\<close> (whose return value the
  function returns as it is).
\<close>

record 'r route_result =
  rq_instance :: "'r RegexHintInst"
  rq_session :: RegexHintSess
  rq_down :: GWBUF

definition routeQuery ::
  "('r \<Rightarrow> string \<Rightarrow> int) \<Rightarrow> 'r RegexHintInst \<Rightarrow> RegexHintSess \<Rightarrow> GWBUF \<Rightarrow> 'r route_result" where
  "routeQuery pcre2_match inst my_session queue =
     (if modutil_is_SQL queue \<and> active my_session \<noteq> 0 then
        (case modutil_extract_SQL queue of
           Some sql \<Rightarrow>
             (let (result, servers) = find_servers pcre2_match (m_mapping inst) [] sql in
              if result \<ge> 0 then
                \<lparr>rq_instance = inst\<lparr>m_total_diverted := m_total_diverted inst + 1\<rparr>,
                 rq_session = my_session\<lparr>n_diverted := n_diverted my_session + 1\<rparr>,
                 rq_down = queue\<lparr>hint := add_hints (hint queue) servers\<rparr>\<rparr>
              else if result = PCRE2_ERROR_NOMATCH then
                \<lparr>rq_instance = inst\<lparr>m_total_undiverted := m_total_undiverted inst + 1\<rparr>,
                 rq_session = my_session\<lparr>n_undiverted := n_undiverted my_session + 1\<rparr>,
                 rq_down = queue\<rparr>
              else
                \<lparr>rq_instance = inst\<lparr>m_total_undiverted := m_total_undiverted inst + 1\<rparr>,
                 rq_session = my_session\<lparr>n_undiverted := n_undiverted my_session + 1,
                                         regex_error_printed := True\<rparr>,
                 rq_down = queue\<rparr>)
         | None \<Rightarrow> \<lparr>rq_instance = inst, rq_session = my_session, rq_down = queue\<rparr>)
      else \<lparr>rq_instance = inst, rq_session = my_session, rq_down = queue\<rparr>)"

subsection \<open>newSession\<close>

text \<open>
  What \<^verbatim>\<open>newSession\<close> reads of the client session: \<^verbatim>\<open>session_get_remote\<close>,
  \<^verbatim>\<open>session_get_user\<close> (each may be \<^verbatim>\<open>NULL\<close>) and the client's IPv4 address
  \<^verbatim>\<open>client_dcb->ipv4.sin_addr.s_addr\<close>.
\<close>

record MXS_SESSION =
  remote :: "string option"
  user :: "string option"
  client_ipv4 :: "32 word"

definition check_source_host :: "REGEXHINT_SOURCE_HOST \<Rightarrow> string \<Rightarrow> 32 word \<Rightarrow> int" where
  "check_source_host src rem addr =
     (let ret = (if netmask src = 32 then (if address src = Some rem then 1 else 0) else 0);
          check_ipv4 =
            (if netmask src = 24 then addr AND 0x00FFFFFF
             else if netmask src = 16 then addr AND 0x0000FFFF
             else if netmask src = 8 then addr AND 0x000000FF
             else addr)
      in if netmask src < 32 then (if check_ipv4 = ipv4 src then 1 else 0) else ret)"

definition newSession :: "'r RegexHintInst \<Rightarrow> MXS_SESSION \<Rightarrow> RegexHintSess" where
  "newSession inst session =
     (let s0 = \<lparr>n_diverted = 0, n_undiverted = 0, active = 1, regex_error_printed = False\<rparr>;
          s1 =
            (case m_source inst of
               None \<Rightarrow> s0
             | Some src \<Rightarrow>
                 (case address src of
                    None \<Rightarrow> s0
                  | Some a \<Rightarrow>
                      (case remote session of
                         None \<Rightarrow> s0
                       | Some rem \<Rightarrow>
                           s0\<lparr>active := check_source_host src rem (client_ipv4 session)\<rparr>)))
      in if m_user inst \<noteq> [] \<and> (case user session of None \<Rightarrow> False | Some u \<Rightarrow> u \<noteq> m_user inst)
         then s1\<lparr>active := 0\<rparr> else s1)"

text \<open>The successive \<^verbatim>\<open>routeQuery\<close> calls of one session, in order.\<close>

fun route_all ::
  "('r \<Rightarrow> string \<Rightarrow> int) \<Rightarrow> 'r RegexHintInst \<Rightarrow> RegexHintSess \<Rightarrow> GWBUF list
    \<Rightarrow> 'r RegexHintInst \<times> RegexHintSess" where
  "route_all pcre2_match inst s [] = (inst, s)"
| "route_all pcre2_match inst s (q # qs) =
     (let r = routeQuery pcre2_match inst s q
      in route_all pcre2_match (rq_instance r) (rq_session r) qs)"

text \<open>
  The guard of the counting block of \<^verbatim>\<open>routeQuery\<close>: the buffer is an SQL
  statement, the session is active and the statement text could be extracted.
\<close>

definition counted :: "RegexHintSess \<Rightarrow> GWBUF \<Rightarrow> bool" where
  "counted s q = (modutil_is_SQL q \<and> active s \<noteq> 0 \<and> modutil_extract_SQL q \<noteq> None)"

subsection \<open>The source address\<close>

definition INET_ADDRSTRLEN :: nat where
  "INET_ADDRSTRLEN = 16"

definition isdigit :: "char \<Rightarrow> bool" where
  "isdigit c = (c \<in> set ''0123456789'')"

text \<open>
  The byte loop of \<^verbatim>\<open>validate_ip_address\<close>: \<open>None\<close> when a byte is neither a digit,
  a dot nor \<^verbatim>\<open>%\<close> (the early \<^verbatim>\<open>return false\<close>), the number of dots otherwise.
\<close>

fun check_bytes :: "string \<Rightarrow> int \<Rightarrow> int option" where
  "check_bytes [] n_dots = Some n_dots"
| "check_bytes (c # cs) n_dots =
     (if \<not> isdigit c \<and> c \<noteq> CHR ''.'' \<and> c \<noteq> CHR ''%'' then None
      else check_bytes cs (if c = CHR ''.'' then n_dots + 1 else n_dots))"

definition validate_ip_address :: "string \<Rightarrow> bool" where
  "validate_ip_address host =
     (if (case host of [] \<Rightarrow> False | c # _ \<Rightarrow> c = CHR ''%'' \<or> c = CHR ''.'')
         \<or> length host > INET_ADDRSTRLEN
      then False
      else (case check_bytes host 0 of
              None \<Rightarrow> False
            | Some n_dots \<Rightarrow> (if n_dots = 3 then last host \<noteq> CHR ''.'' else False)))"

text \<open>
  The copy loop of \<^verbatim>\<open>set_source_address\<close>, which runs while there is input and
  \<^verbatim>\<open>bytes <= 3\<close>: it returns the text written to \<^verbatim>\<open>format_host\<close> and the netmask.
\<close>

fun format_loop :: "string \<Rightarrow> int \<Rightarrow> int \<Rightarrow> string \<times> int" where
  "format_loop [] bytes nm = ([], nm)"
| "format_loop (c # p) bytes nm =
     (if bytes \<le> 3 then
        (let bytes' = (if c = CHR ''.'' then bytes + 1 else bytes) in
         if c = CHR ''%'' then
           (case format_loop p bytes' (nm - 8) of
              (out, nm') \<Rightarrow> ((if bytes' = 3 then CHR ''1'' else CHR ''0'') # out, nm'))
         else
           (case format_loop p bytes' nm of (out, nm') \<Rightarrow> (c # out, nm')))
      else ([], nm))"

text \<open>
  \<^verbatim>\<open>setipaddress\<close> (name resolution, server core) is a parameter: the address it
  stores, \<open>None\<close> when it fails. Memory allocation is taken to succeed, so the
  \<^verbatim>\<open>NULL\<close> return of \<^verbatim>\<open>set_source_address\<close> does not occur.
\<close>

definition set_source_address ::
  "(string \<Rightarrow> 32 word option) \<Rightarrow> string \<Rightarrow> REGEXHINT_SOURCE_HOST" where
  "set_source_address setipaddress input_host =
     (let source_host = \<lparr>address = None, ipv4 = 0, netmask = 0\<rparr> in
      if \<not> validate_ip_address input_host then source_host\<lparr>address := None\<rparr>
      else if CHR ''%'' \<notin> set input_host
      then source_host\<lparr>address := Some input_host, netmask := 32\<rparr>
      else
        (case format_loop input_host 0 32 of
           (format_host, nm) \<Rightarrow>
             (case (if format_host \<noteq> [] then setipaddress format_host else None) of
                Some a \<Rightarrow>
                  \<lparr>address = Some input_host,
                   ipv4 = (if nm < 32 then a AND 0x00FFFFFF else a),
                   netmask = nm\<rparr>
              | None \<Rightarrow>
                  \<lparr>address = None,
                   ipv4 = (case setipaddress format_host of Some a \<Rightarrow> a | None \<Rightarrow> 0),
                   netmask = nm\<rparr>)))"

subsection \<open>Creating the instance\<close>

text \<open>
  The configuration parameters as the filter reads them: \<^verbatim>\<open>config_get_string\<close>
  (the empty string for a parameter that is not set), \<^verbatim>\<open>config_get_integer\<close> and
  \<^verbatim>\<open>config_get_enum\<close>.
\<close>

record MXS_CONFIG_PARAMETER =
  config_get_string :: "string \<Rightarrow> string"
  config_get_integer :: "string \<Rightarrow> int"
  config_get_enum :: "string \<Rightarrow> int"

text \<open>
  \<^verbatim>\<open>strtok_r\<close> with the delimiter set \<^verbatim>\<open>","\<close>, called until it returns
  \<^verbatim>\<open>NULL\<close>: the maximal runs of bytes other than the comma, in order. \<open>tok\<close> is
  the token being read, in reverse.
\<close>

fun strtok_all :: "string \<Rightarrow> string \<Rightarrow> string list" where
  "strtok_all [] tok = (if tok = [] then [] else [rev tok])"
| "strtok_all (c # cs) tok =
     (if c = CHR '',''
      then (if tok = [] then strtok_all cs [] else rev tok # strtok_all cs [])
      else strtok_all cs (c # tok))"

definition add_servers :: "'r RegexToServers \<Rightarrow> string \<Rightarrow> int \<times> 'r RegexToServers" where
  "add_servers rs server_names =
     (let toks = strtok_all server_names []
      in (int (length toks), rs\<lparr>m_servers := m_servers rs @ toks\<rparr>))"

text \<open>
  The state of the loop of \<^verbatim>\<open>form_regex_server_mapping\<close>: the mapping built so far,
  the error flag, and the compiled regexes handed to \<^verbatim>\<open>pcre2_code_free\<close>.
\<close>

record 'r form_state =
  fs_mapping :: "'r RegexToServers list"
  fs_error :: bool
  fs_freed :: "'r list"

fun form_loop ::
  "(string \<Rightarrow> 'r option) \<Rightarrow> MXS_CONFIG_PARAMETER \<Rightarrow> (string \<times> string) list
    \<Rightarrow> 'r form_state \<Rightarrow> 'r form_state" where
  "form_loop pcre2_compile params [] st = st"
| "form_loop pcre2_compile params ((zMatch, zServer) # names) st =
     (let match = config_get_string params zMatch;
          servers = config_get_string params zServer
      in if length match < 1 \<or> length servers < 1
         then form_loop pcre2_compile params names st
         else (case pcre2_compile match of
                 Some regex \<Rightarrow>
                   (let (found, regex_ser) =
                          add_servers \<lparr>m_match = match, m_regex = regex, m_servers = []\<rparr> servers
                    in if found \<noteq> 0
                       then form_loop pcre2_compile params names
                              (st\<lparr>fs_mapping := fs_mapping st @ [regex_ser]\<rparr>)
                       else form_loop pcre2_compile params names
                              (st\<lparr>fs_error := True, fs_freed := fs_freed st @ [regex]\<rparr>))
               | None \<Rightarrow> form_loop pcre2_compile params names (st\<lparr>fs_error := True\<rparr>)))"

text \<open>
  \<open>param_names\<close> is the pair of global arrays \<^verbatim>\<open>param_names_match\<close> and
  \<^verbatim>\<open>param_names_server\<close>, zipped (the function asserts that they have the same
  size). The result is the mapping and the regexes that were freed.
\<close>

definition form_regex_server_mapping ::
  "(string \<Rightarrow> 'r option) \<Rightarrow> (string \<times> string) list \<Rightarrow> MXS_CONFIG_PARAMETER
    \<Rightarrow> 'r RegexToServers list \<times> 'r list" where
  "form_regex_server_mapping pcre2_compile param_names params =
     (let st = form_loop pcre2_compile params param_names
                 \<lparr>fs_mapping = [], fs_error = False, fs_freed = []\<rparr>
      in if fs_error st
         then ([], fs_freed st @ map m_regex (fs_mapping st))
         else (fs_mapping st, fs_freed st))"

text \<open>
  \<^verbatim>\<open>createInstance\<close>: the instance, or \<open>None\<close> for \<^verbatim>\<open>NULL\<close>, next to the
  regexes freed on the way. With allocation taken to succeed,
  \<^verbatim>\<open>set_source_address\<close> returns a struct and the local \<^verbatim>\<open>error\<close> stays false.
\<close>

definition createInstance ::
  "(string \<Rightarrow> 'r option) \<Rightarrow> (string \<Rightarrow> 32 word option) \<Rightarrow> (string \<times> string) list
    \<Rightarrow> MXS_CONFIG_PARAMETER \<Rightarrow> 'r RegexHintInst option \<times> 'r list" where
  "createInstance pcre2_compile setipaddress param_names params =
     (let cfg_param = config_get_string params ''source'';
          source = (if cfg_param \<noteq> [] then Some (set_source_address setipaddress cfg_param)
                    else None);
          error = False;
          (mapping, freed) = form_regex_server_mapping pcre2_compile param_names params
      in if mapping = [] \<or> error then (None, freed)
         else (Some \<lparr>m_user = config_get_string params ''user'',
                      m_source = source,
                      m_mapping = mapping,
                      m_ovector_size = config_get_integer params ''ovector_size'',
                      m_total_diverted = 0,
                      m_total_undiverted = 0\<rparr>, freed))"

text \<open>
  The pairs that \<^verbatim>\<open>form_regex_server_mapping\<close> does not skip: both the match and
  the server parameter are set.
\<close>

definition configured_pairs ::
  "MXS_CONFIG_PARAMETER \<Rightarrow> (string \<times> string) list \<Rightarrow> (string \<times> string) list" where
  "configured_pairs params param_names =
     filter (\<lambda>(m, s). m \<noteq> [] \<and> s \<noteq> [])
       (map (\<lambda>(zMatch, zServer). (config_get_string params zMatch, config_get_string params zServer))
          param_names)"

subsection \<open>Notions used to state the properties\<close>

definition named_hint :: "string \<Rightarrow> HINT" where
  "named_hint s = \<lparr>hint_type = HINT_ROUTE_TO_NAMED_SERVER, hint_data = s\<rparr>"

definition host_byte :: "char \<Rightarrow> bool" where
  "host_byte c = (isdigit c \<or> c = CHR ''.'' \<or> c = CHR ''%'')"

text \<open>
  For a configured pair (match text, server text): the mapping entry it yields when the
  regex compiles and the server text holds a name; the regex that is compiled and freed
  at once because the server text holds no name; and whether the pair fails.
\<close>

definition entry_of ::
  "(string \<Rightarrow> 'r option) \<Rightarrow> string \<times> string \<Rightarrow> 'r RegexToServers option" where
  "entry_of pcre2_compile p =
     (case pcre2_compile (fst p) of
        None \<Rightarrow> None
      | Some regex \<Rightarrow>
          (if strtok_all (snd p) [] = [] then None
           else Some \<lparr>m_match = fst p, m_regex = regex, m_servers = strtok_all (snd p) []\<rparr>))"

definition freed_early :: "(string \<Rightarrow> 'r option) \<Rightarrow> string \<times> string \<Rightarrow> 'r option" where
  "freed_early pcre2_compile p =
     (if strtok_all (snd p) [] = [] then pcre2_compile (fst p) else None)"

definition compiled_regexes ::
  "(string \<Rightarrow> 'r option) \<Rightarrow> MXS_CONFIG_PARAMETER \<Rightarrow> (string \<times> string) list \<Rightarrow> 'r list" where
  "compiled_regexes pcre2_compile params param_names =
     List.map_filter (\<lambda>p. pcre2_compile (fst p)) (configured_pairs params param_names)"

definition pair_fails :: "(string \<Rightarrow> 'r option) \<Rightarrow> string \<times> string \<Rightarrow> bool" where
  "pair_fails pcre2_compile p = (pcre2_compile (fst p) = None \<or> strtok_all (snd p) [] = [])"

subsection \<open>Concrete inputs\<close>

text \<open>
  A library whose compiled regexes are numbers: regex 0 does not match, regex 1 matches,
  and matching regex 2 fails with \<^verbatim>\<open>PCRE2_ERROR_MATCHLIMIT\<close> (-47), as a pattern
  with nested quantifiers does on a long subject.
\<close>

definition ex_match :: "nat \<Rightarrow> string \<Rightarrow> int" where
  "ex_match r sql = (if r = 0 then -1 else if r = 1 then 1 else -47)"

definition ex_session :: RegexHintSess where
  "ex_session = \<lparr>n_diverted = 0, n_undiverted = 0, active = 1, regex_error_printed = False\<rparr>"

definition ex_query :: GWBUF where
  "ex_query = \<lparr>is_SQL = True, is_SQL_prepare = False, sql_text = Some ''SELECT 1'', hint = []\<rparr>"

definition ex_packet :: GWBUF where
  "ex_packet = \<lparr>is_SQL = False, is_SQL_prepare = False, sql_text = None, hint = []\<rparr>"

definition ex_entry :: "nat \<Rightarrow> string list \<Rightarrow> nat RegexToServers" where
  "ex_entry r servers = \<lparr>m_match = ''re'', m_regex = r, m_servers = servers\<rparr>"

definition ex_instance :: "nat RegexToServers list \<Rightarrow> nat RegexHintInst" where
  "ex_instance mapping =
     \<lparr>m_user = [], m_source = None, m_mapping = mapping, m_ovector_size = 1,
      m_total_diverted = 0, m_total_undiverted = 0\<rparr>"

definition ex_client :: MXS_SESSION where
  "ex_client = \<lparr>remote = Some ''10.0.0.7'', user = Some ''app'', client_ipv4 = 0x0700000A\<rparr>"

text \<open>A compiler that rejects the pattern \<^verbatim>\<open>(\<close> and numbers the others by length.\<close>

definition ex_compile :: "string \<Rightarrow> nat option" where
  "ex_compile pat = (if pat = ''('' then None else Some (length pat))"

definition ex_names :: "(string \<times> string) list" where
  "ex_names = [(''match'', ''server''), (''match01'', ''server01''), (''match02'', ''server02'')]"

definition ex_params :: "(string \<times> string) list \<Rightarrow> MXS_CONFIG_PARAMETER" where
  "ex_params kv =
     \<lparr>config_get_string = (\<lambda>k. case map_of kv k of None \<Rightarrow> [] | Some v \<Rightarrow> v),
      config_get_integer = (\<lambda>k. 1),
      config_get_enum = (\<lambda>k. 0)\<rparr>"

definition ex_setip :: "string \<Rightarrow> 32 word option" where
  "ex_setip h = (if h = ''192.168.0.1'' then Some 0x0100A8C0 else None)"

section \<open>luafilter\<close>

subsection \<open>The Lua state as the filter uses it\<close>

text \<open>
  The Lua library is outside the repository. The model keeps of a \<^verbatim>\<open>lua_State\<close> the
  value stack that the C API works on (top first) and the behaviour of the global
  function \<^verbatim>\<open>routeQuery\<close> of the loaded script: \<open>None\<close> when the script defines
  no such function, otherwise the function from the query text to either an error
  message (the call raises) or the list of values it returns. A number carries the text
  that \<^verbatim>\<open>lua_tostring\<close> converts it to.
\<close>

datatype lua_value =
    LNil
  | LBoolean bool
  | LNumber string
  | LString string
  | LOther

record lua_State =
  stack :: "lua_value list"
  routeQuery_fn :: "(string \<Rightarrow> string + lua_value list) option"

definition lua_gettop :: "lua_State \<Rightarrow> nat" where
  "lua_gettop L = length (stack L)"

definition lua_isstring :: "lua_value \<Rightarrow> bool" where
  "lua_isstring v = (case v of LString _ \<Rightarrow> True | LNumber _ \<Rightarrow> True | _ \<Rightarrow> False)"

definition lua_isboolean :: "lua_value \<Rightarrow> bool" where
  "lua_isboolean v = (case v of LBoolean _ \<Rightarrow> True | _ \<Rightarrow> False)"

definition lua_toboolean :: "lua_value \<Rightarrow> bool" where
  "lua_toboolean v = (case v of LNil \<Rightarrow> False | LBoolean b \<Rightarrow> b | _ \<Rightarrow> True)"

definition lua_tostring :: "lua_value \<Rightarrow> string" where
  "lua_tostring v = (case v of LString t \<Rightarrow> t | LNumber t \<Rightarrow> t | _ \<Rightarrow> [])"

text \<open>\<^verbatim>\<open>lua_pop(L, -1)\<close> is \<^verbatim>\<open>lua_settop(L, 0)\<close>: it empties the stack.\<close>

definition lua_pop_minus1 :: "lua_State \<Rightarrow> lua_State" where
  "lua_pop_minus1 L = L\<lparr>stack := []\<rparr>"

text \<open>
  \<^verbatim>\<open>lua_getglobal(L, "routeQuery"); lua_pushlstring(L, q, strlen(q));
  lua_pcall(L, 1, nresults, 0)\<close>: the function and its argument are popped; on success
  the results, adjusted to \<open>nresults\<close> values, are pushed (the last result on top), on
  failure the error message is pushed. The first component says whether the call
  returned \<^verbatim>\<open>LUA_OK\<close>.
\<close>

definition lua_call_routeQuery :: "lua_State \<Rightarrow> string \<Rightarrow> nat \<Rightarrow> bool \<times> lua_State" where
  "lua_call_routeQuery L q nresults =
     (case routeQuery_fn L of
        None \<Rightarrow> (False, L\<lparr>stack := LString ''attempt to call a nil value'' # stack L\<rparr>)
      | Some f \<Rightarrow>
          (case f q of
             Inl msg \<Rightarrow> (False, L\<lparr>stack := LString msg # stack L\<rparr>)
           | Inr results \<Rightarrow>
               (True, L\<lparr>stack := rev (take nresults (results @ replicate nresults LNil))
                                   @ stack L\<rparr>)))"

subsection \<open>routeQuery of the Lua filter\<close>

record LUA_INSTANCE =
  global_lua_state :: "lua_State option"
  global_script :: "string option"
  session_script :: "string option"

record LUA_SESSION =
  lua_state :: "lua_State option"
  current_query :: "GWBUF option"

text \<open>
  \<^verbatim>\<open>modutil_create_query\<close> builds a new \<^verbatim>\<open>COM_QUERY\<close> buffer around a statement,
  and \<^verbatim>\<open>modutil_create_mysql_err_msg\<close> an error packet from a packet number, the
  affected rows, an error number, an SQL state and a message.
\<close>

definition modutil_create_query :: "string \<Rightarrow> GWBUF" where
  "modutil_create_query q =
     \<lparr>is_SQL = True, is_SQL_prepare = False, sql_text = Some q, hint = []\<rparr>"

record mysql_err_msg =
  packet_number :: int
  affected_rows :: int
  merrno :: int
  sqlstate :: string
  message :: string

definition modutil_create_mysql_err_msg ::
  "int \<Rightarrow> int \<Rightarrow> int \<Rightarrow> string \<Rightarrow> string \<Rightarrow> mysql_err_msg" where
  "modutil_create_mysql_err_msg pn ar en st msg =
     \<lparr>packet_number = pn, affected_rows = ar, merrno = en, sqlstate = st, message = msg\<rparr>"

text \<open>
  What the filter does with the query in the end: it either calls
  \<^verbatim>\<open>my_session->down.routeQuery\<close> with a buffer or writes an error packet to the
  client DCB.
\<close>

datatype lf_action =
    RouteDown GWBUF
  | WriteToClient mysql_err_msg

record lf_result =
  lf_instance :: LUA_INSTANCE
  lf_session :: LUA_SESSION
  lf_action :: lf_action

text \<open>
  The only failure of the function that the model records: with a global Lua state and a
  buffer whose text \<^verbatim>\<open>modutil_get_SQL\<close> does not deliver, the code calls
  \<^verbatim>\<open>strlen\<close> on a null pointer.
\<close>

datatype lf_fault = NullDereference

text \<open>
  The block that follows a successful \<^verbatim>\<open>lua_pcall\<close>, which the source has once for
  the session state and once for the global state: if the stack is not empty, a string
  (or number) on top replaces the buffer to forward, a boolean on top sets \<open>route\<close>.
\<close>

definition interpret_top :: "lua_State \<Rightarrow> GWBUF \<times> bool \<Rightarrow> GWBUF \<times> bool" where
  "interpret_top L fr =
     (if lua_gettop L \<noteq> 0 then
        (case stack L of
           [] \<Rightarrow> fr
         | v # _ \<Rightarrow>
             if lua_isstring v then (modutil_create_query (lua_tostring v), snd fr)
             else if lua_isboolean v then (fst fr, lua_toboolean v)
             else fr)
      else fr)"

text \<open>
  The call of one state's \<^verbatim>\<open>routeQuery\<close> with \<open>nresults\<close> requested results:
  a failed call logs the error and empties the stack, a successful one is followed by
  the block above.
\<close>

definition call_script ::
  "lua_State \<Rightarrow> string \<Rightarrow> nat \<Rightarrow> GWBUF \<times> bool \<Rightarrow> lua_State \<times> GWBUF \<times> bool" where
  "call_script L fullquery nresults fr =
     (case lua_call_routeQuery L fullquery nresults of
        (False, L') \<Rightarrow> (lua_pop_minus1 L', fr)
      | (True, L') \<Rightarrow> (L', interpret_top L' fr))"

definition luafilter_routeQuery ::
  "LUA_INSTANCE \<Rightarrow> LUA_SESSION \<Rightarrow> GWBUF \<Rightarrow> lf_fault + lf_result" where
  "luafilter_routeQuery my_instance my_session queue =
     (let finish = (\<lambda>inst sess (forward, route).
            \<lparr>lf_instance = inst, lf_session = sess,
             lf_action =
               (if \<not> route
                then WriteToClient
                       (modutil_create_mysql_err_msg 1 0 1045 ''28000'' ''Access denied.'')
                else RouteDown forward)\<rparr>)
      in if modutil_is_SQL queue \<or> modutil_is_SQL_prepare queue then
           (let fullquery = modutil_get_SQL queue;
                (sess1, fr1) =
                  (case (fullquery, lua_state my_session) of
                     (Some fq, Some L) \<Rightarrow>
                       (case call_script L fq 1 (queue, True) of
                          (L', fr) \<Rightarrow> (my_session\<lparr>lua_state := Some L', current_query := None\<rparr>, fr))
                   | _ \<Rightarrow> (my_session, (queue, True)))
            in case global_lua_state my_instance of
                 None \<Rightarrow> Inr (finish my_instance sess1 fr1)
               | Some G \<Rightarrow>
                   (case fullquery of
                      None \<Rightarrow> Inl NullDereference
                    | Some fq \<Rightarrow>
                        (case call_script G fq 0 fr1 of
                           (G', fr2) \<Rightarrow>
                             Inr (finish (my_instance\<lparr>global_lua_state := Some G'\<rparr>) sess1 fr2))))
         else Inr (finish my_instance my_session (queue, True)))"

subsection \<open>Concrete inputs\<close>

text \<open>
  A session script whose \<^verbatim>\<open>routeQuery\<close> returns \<^verbatim>\<open>false\<close>, and a global script
  that defines \<^verbatim>\<open>routeQuery\<close> (returning nothing) and whose chunk ended with
  \<^verbatim>\<open>return true\<close>: \<^verbatim>\<open>luaL_dofile\<close> runs the chunk with \<^verbatim>\<open>LUA_MULTRET\<close> and
  leaves that value on the stack of the global state.
\<close>

definition ex_deny_state :: lua_State where
  "ex_deny_state = \<lparr>stack = [], routeQuery_fn = Some (\<lambda>q. Inr [LBoolean False])\<rparr>"

definition ex_global_state :: lua_State where
  "ex_global_state = \<lparr>stack = [LBoolean True], routeQuery_fn = Some (\<lambda>q. Inr [])\<rparr>"

definition ex_lua_session :: "lua_State \<Rightarrow> LUA_SESSION" where
  "ex_lua_session L = \<lparr>lua_state = Some L, current_query = None\<rparr>"

definition ex_lua_instance :: "lua_State option \<Rightarrow> LUA_INSTANCE" where
  "ex_lua_instance G =
     \<lparr>global_lua_state = G, global_script = (case G of None \<Rightarrow> None | Some _ \<Rightarrow> Some ''global.lua''),
      session_script = Some ''session.lua''\<rparr>"

section \<open>Worker messaging\<close>

text \<open>
  Of the worker layer the sources hold the header only: the struct \<^verbatim>\<open>MXS_WORKER\<close>,
  the enumeration \<^verbatim>\<open>mxs_worker_msg_id\<close> and the declarations of
  \<^verbatim>\<open>mxs_worker_post_message\<close> and \<^verbatim>\<open>mxs_worker_broadcast_message\<close>. The two
  types below follow the header; the channel, the operations and the event loop are
  modelled from the specification, as said at each definition.
\<close>

datatype mxs_worker_msg_id =
    MXS_WORKER_MSG_PING
  | MXS_WORKER_MSG_SHUTDOWN
  | MXS_WORKER_MSG_CALL

text \<open>
  Modelled from the spec: the message record (its C type is not among the sources), "a
  3-field fixed-layout record \<open>{id, arg1, arg2}\<close>" whose arguments are word-sized
  (\<^verbatim>\<open>intptr_t\<close> in the header).
\<close>

record message =
  msg_id :: mxs_worker_msg_id
  arg1 :: "64 word"
  arg2 :: "64 word"

text \<open>
  Modelled from the spec: a message together with the thread that posted it ("one
  poster, one worker pair"). The tag is not part of the record that travels; it is there
  to state the order of delivery per poster.
\<close>

record tagged_message = message +
  poster :: nat

text \<open>
  Modelled from the spec: the lifecycle of a worker ("Created, Running,
  ShutdownInitiated, Stopped").
\<close>

datatype worker_state = Created | Running | ShutdownInitiated | Stopped

text \<open>
  Modelled from the spec: the worker with its message channel (the pipe between
  \<^verbatim>\<open>write_fd\<close> and \<^verbatim>\<open>read_fd\<close> and the code that uses it are not among the
  sources). The channel is "a bounded, unidirectional, cross-thread FIFO conduit carrying
  fixed-size message records": its records, oldest first, its capacity in records, and
  whether it has been closed. The fields \<open>worker_id\<close>, \<open>started\<close>,
  \<open>should_shutdown\<close> and \<open>shutdown_initiated\<close> are those of the header's struct.
\<close>

record 'a MXS_WORKER =
  worker_id :: int
  started :: bool
  should_shutdown :: bool
  shutdown_initiated :: bool
  loop_state :: worker_state
  channel :: "'a message_scheme list"
  capacity :: nat
  closed :: bool

text \<open>
  Modelled from the spec: the write of \<^verbatim>\<open>mxs_worker_post_message\<close> (its body is not
  among the sources). "Atomically appends one fixed-size message record to the worker's
  channel"; "\<open>true\<close> if the record was enqueued; \<open>false\<close> if the channel is full or
  closed -- no internal retry, no blocking".
\<close>

definition post_record :: "'a MXS_WORKER \<Rightarrow> 'a message_scheme \<Rightarrow> bool \<times> 'a MXS_WORKER" where
  "post_record w m =
     (if closed w \<or> capacity w \<le> length (channel w) then (False, w)
      else (True, w\<lparr>channel := channel w @ [m]\<rparr>))"

definition mxs_worker_post_message ::
  "unit MXS_WORKER \<Rightarrow> mxs_worker_msg_id \<Rightarrow> 64 word \<Rightarrow> 64 word \<Rightarrow> bool \<times> unit MXS_WORKER" where
  "mxs_worker_post_message w i a1 a2 = post_record w \<lparr>msg_id = i, arg1 = a1, arg2 = a2\<rparr>"

text \<open>
  Modelled from the spec: \<^verbatim>\<open>mxs_worker_broadcast_message\<close> (its body is not among the
  sources). "Iterates the (immutable) Worker set and calls \<open>post\<close> on each, summing
  successes"; "the same \<open>arg1\<close>/\<open>arg2\<close> values are handed to every worker's
  message". The registry is the list of the workers, by id.
\<close>

fun broadcast_loop ::
  "'a MXS_WORKER list \<Rightarrow> 'a message_scheme \<Rightarrow> nat \<times> 'a MXS_WORKER list" where
  "broadcast_loop [] m = (0, [])"
| "broadcast_loop (w # ws) m =
     (case post_record w m of
        (ok, w') \<Rightarrow>
          (case broadcast_loop ws m of
             (n, ws') \<Rightarrow> ((if ok then n + 1 else n), w' # ws')))"

definition mxs_worker_broadcast_message ::
  "unit MXS_WORKER list \<Rightarrow> mxs_worker_msg_id \<Rightarrow> 64 word \<Rightarrow> 64 word
    \<Rightarrow> nat \<times> unit MXS_WORKER list" where
  "mxs_worker_broadcast_message ws i a1 a2 =
     broadcast_loop ws \<lparr>msg_id = i, arg1 = a1, arg2 = a2\<rparr>"

text \<open>
  Modelled from the spec: the dispatch of one drained record by its id (the event loop is
  not among the sources). \<open>PING\<close> is a no-op; \<open>SHUTDOWN\<close> sets \<open>should_shutdown\<close>;
  \<open>CALL\<close> invokes the function of \<open>arg1\<close> on the worker's thread, which changes
  nothing of the worker itself.
\<close>

definition dispatch :: "'a MXS_WORKER \<Rightarrow> 'a message_scheme \<Rightarrow> 'a MXS_WORKER" where
  "dispatch w m =
     (case msg_id m of
        MXS_WORKER_MSG_PING \<Rightarrow> w
      | MXS_WORKER_MSG_SHUTDOWN \<Rightarrow>
          w\<lparr>should_shutdown := True, shutdown_initiated := True,
            loop_state := ShutdownInitiated\<rparr>
      | MXS_WORKER_MSG_CALL \<Rightarrow> w)"

text \<open>
  Modelled from the spec: a worker together with two histories, the records that were
  enqueued into its channel, in the order of the successful posts, and the records that
  its loop has dispatched, in the order of dispatch.
\<close>

record 'a worker_run =
  worker :: "'a MXS_WORKER"
  sent :: "'a message_scheme list"
  dispatched :: "'a message_scheme list"

text \<open>
  Modelled from the spec: one wake-up of a running worker's loop. "On readiness of the
  channel: drain complete message records one at a time, in arrival order, and dispatch
  by id"; after a \<open>SHUTDOWN\<close> the loop finishes "any already-drained messages in the
  current batch, then exits".
\<close>

definition wake :: "'a worker_run \<Rightarrow> 'a worker_run" where
  "wake r =
     (if loop_state (worker r) = Running then
        (let batch = channel (worker r);
             w1 = fold (\<lambda>m w. dispatch w m) batch ((worker r)\<lparr>channel := []\<rparr>)
         in r\<lparr>worker := (if should_shutdown w1 then w1\<lparr>loop_state := Stopped\<rparr> else w1),
              dispatched := dispatched r @ batch\<rparr>)
      else r)"

text \<open>
  Modelled from the spec: the threads of the system take turns ("any thread calls post,
  writes into a target Worker's channel, the target's event loop wakes on readiness").
  A step is either a post of a message to the worker with a given id, by the thread
  named in the message's tag, or a wake-up of the loop of a worker. A post to an id that
  is not in the registry does nothing.
\<close>

datatype 'a event = Post nat "'a message_scheme" | Wake nat

fun step :: "'a worker_run list \<Rightarrow> 'a event \<Rightarrow> 'a worker_run list" where
  "step rs (Post k m) =
     (if k < length rs then
        (case post_record (worker (rs ! k)) m of
           (ok, w') \<Rightarrow>
             rs[k := (rs ! k)\<lparr>worker := w',
                              sent := (if ok then sent (rs ! k) @ [m] else sent (rs ! k))\<rparr>])
      else rs)"
| "step rs (Wake k) = (if k < length rs then rs[k := wake (rs ! k)] else rs)"

definition run :: "'a worker_run list \<Rightarrow> 'a event list \<Rightarrow> 'a worker_run list" where
  "run rs es = foldl step rs es"

text \<open>
  Modelled from the spec: the registry after initialisation, "populated once from a
  configured worker count": \<open>n\<close> running workers with empty channels of capacity
  \<open>cap\<close>.
\<close>

definition init_workers :: "nat \<Rightarrow> nat \<Rightarrow> 'a worker_run list" where
  "init_workers n cap =
     map (\<lambda>i. \<lparr>worker = \<lparr>worker_id = int i, started = True, should_shutdown = False,
                          shutdown_initiated = False, loop_state = Running, channel = [],
                          capacity = cap, closed = False\<rparr>,
                sent = [], dispatched = []\<rparr>) [0..<n]"

text \<open>
  Every record that was enqueued has either been dispatched or is still in the channel,
  and the order of the three lists agrees.
\<close>

definition fifo_inv :: "'a worker_run list \<Rightarrow> bool" where
  "fifo_inv rs = (\<forall>r\<in>set rs. dispatched r @ channel (worker r) = sent r)"

definition from_poster :: "nat \<Rightarrow> tagged_message list \<Rightarrow> tagged_message list" where
  "from_poster p ms = filter (\<lambda>m. poster m = p) ms"

subsection \<open>Concrete inputs\<close>

definition ex_worker :: "nat \<Rightarrow> message list \<Rightarrow> bool \<Rightarrow> unit MXS_WORKER" where
  "ex_worker cap ms cl =
     \<lparr>worker_id = 0, started = True, should_shutdown = False, shutdown_initiated = False,
      loop_state = Running, channel = ms, capacity = cap, closed = cl\<rparr>"

definition ex_ping :: message where
  "ex_ping = \<lparr>msg_id = MXS_WORKER_MSG_PING, arg1 = 0, arg2 = 0\<rparr>"

definition ex_msg :: "nat \<Rightarrow> 64 word \<Rightarrow> tagged_message" where
  "ex_msg p a = \<lparr>msg_id = MXS_WORKER_MSG_CALL, arg1 = a, arg2 = 0, poster = p\<rparr>"

section \<open>Theorems: namedserverfilter\<close>

lemma add_hints_eq:
  "add_hints h ss =
     rev (map (\<lambda>s. \<lparr>hint_type = HINT_ROUTE_TO_NAMED_SERVER, hint_data = s\<rparr>) ss) @ h"
  by (induction ss arbitrary: h) (simp_all add: hint_create_route_def)

subsection \<open>Routing hints (C1)\<close>

lemma find_servers_nomatch:
  "\<forall>x\<in>set es. pm (m_regex x) sql = PCRE2_ERROR_NOMATCH
   \<Longrightarrow> find_servers pm es sv sql = (PCRE2_ERROR_NOMATCH, sv)"
  by (induction es) (simp_all add: PCRE2_ERROR_NOMATCH_def)

lemma find_servers_first:
  assumes "\<forall>x\<in>set pre. pm (m_regex x) sql = PCRE2_ERROR_NOMATCH"
      and "pm (m_regex e) sql \<noteq> PCRE2_ERROR_NOMATCH"
  shows "find_servers pm (pre @ e # post) sv sql =
           (pm (m_regex e) sql, if pm (m_regex e) sql \<ge> 0 then m_servers e else sv)"
  using assms by (induction pre) (simp_all add: PCRE2_ERROR_NOMATCH_def Let_def)

text \<open>
  C1, as amended. For an active session and an SQL statement whose text is extracted,
  \<^verbatim>\<open>routeQuery\<close> tries the entries of the mapping in order and stops at the first
  entry whose match result is not \<^verbatim>\<open>PCRE2_ERROR_NOMATCH\<close>. Write the mapping as
  \<open>pre @ post\<close> where no entry of \<open>pre\<close> matches. If \<open>post\<close> is empty (no entry
  matches at all), the buffer goes downstream unchanged. If the first entry of \<open>post\<close>
  matches (result at least 0), one \<^verbatim>\<open>HINT_ROUTE_TO_NAMED_SERVER\<close> hint per server
  name of that entry is put in front of the buffer's hint chain (each new hint becomes
  the head, so the last server comes first), and that buffer goes downstream. If the
  first entry of \<open>post\<close> fails with a matching error, the search stops there and the
  buffer goes downstream unchanged, whatever the later entries would match.
\<close>

theorem routeQuery_hints:
  assumes "active s \<noteq> 0" and "modutil_is_SQL q" and "modutil_extract_SQL q = Some sql"
      and "m_mapping inst = pre @ post"
      and "\<forall>x\<in>set pre. pm (m_regex x) sql = PCRE2_ERROR_NOMATCH"
  shows "(post = [] \<longrightarrow> rq_down (routeQuery pm inst s q) = q) \<and>
         (\<forall>e rest. post = e # rest \<and> pm (m_regex e) sql \<ge> 0 \<longrightarrow>
            rq_down (routeQuery pm inst s q) =
              q\<lparr>hint := rev (map named_hint (m_servers e)) @ hint q\<rparr>) \<and>
         (\<forall>e rest. post = e # rest \<and> pm (m_regex e) sql < 0
              \<and> pm (m_regex e) sql \<noteq> PCRE2_ERROR_NOMATCH \<longrightarrow>
            rq_down (routeQuery pm inst s q) = q)"
proof (intro conjI allI impI)
  assume "post = []"
  with assms show "rq_down (routeQuery pm inst s q) = q"
    by (simp add: routeQuery_def find_servers_nomatch PCRE2_ERROR_NOMATCH_def)
next
  fix e rest
  assume h: "post = e # rest \<and> 0 \<le> pm (m_regex e) sql"
  then have ne: "pm (m_regex e) sql \<noteq> PCRE2_ERROR_NOMATCH"
    by (simp add: PCRE2_ERROR_NOMATCH_def)
  have "find_servers pm (m_mapping inst) [] sql = (pm (m_regex e) sql, m_servers e)"
    using assms(4,5) h ne
      find_servers_first [where pm = pm and pre = pre and e = e and post = rest
        and sv = "[]" and sql = sql]
    by simp
  with assms(1-3) h
  show "rq_down (routeQuery pm inst s q) =
          q\<lparr>hint := rev (map named_hint (m_servers e)) @ hint q\<rparr>"
    by (simp add: routeQuery_def add_hints_eq named_hint_def)
next
  fix e rest
  assume h: "post = e # rest \<and> pm (m_regex e) sql < 0
              \<and> pm (m_regex e) sql \<noteq> PCRE2_ERROR_NOMATCH"
  have "find_servers pm (m_mapping inst) [] sql = (pm (m_regex e) sql, [])"
    using assms(4,5) h
      find_servers_first [where pm = pm and pre = pre and e = e and post = rest
        and sv = "[]" and sql = sql]
    by simp
  with assms(1-3) h
  show "rq_down (routeQuery pm inst s q) = q"
    by (simp add: routeQuery_def)
qed

text \<open>
  The theorem at a concrete mapping: the first regex does not match, the second matches
  and names two servers, the third is not tried.
\<close>

theorem routeQuery_hints_witness:
  "rq_down (routeQuery ex_match
      (ex_instance [ex_entry 0 [''a''], ex_entry 1 [''b'', ''c''], ex_entry 2 [''d'']])
      ex_session ex_query)
   = ex_query\<lparr>hint := [named_hint ''c'', named_hint ''b'']\<rparr>"
  using routeQuery_hints [of ex_session ex_query "''SELECT 1''"
      "ex_instance [ex_entry 0 [''a''], ex_entry 1 [''b'', ''c''], ex_entry 2 [''d'']]"
      "[ex_entry 0 [''a'']]" "[ex_entry 1 [''b'', ''c''], ex_entry 2 [''d'']]" ex_match]
  by (simp add: ex_session_def ex_query_def ex_instance_def ex_entry_def ex_match_def
      modutil_is_SQL_def modutil_extract_SQL_def PCRE2_ERROR_NOMATCH_def)

text \<open>
  C1 as it is stated fails: here the second entry is the first (and only) entry whose
  regex matches the statement, the session is active and the buffer is an SQL statement,
  yet no hint for its server is attached, because matching the first entry ended with
  an error.
\<close>

theorem routeQuery_hints_counterexample:
  "active ex_session \<noteq> 0 \<and> modutil_is_SQL ex_query \<and>
   modutil_extract_SQL ex_query = Some ''SELECT 1'' \<and>
   m_mapping (ex_instance [ex_entry 2 [''a''], ex_entry 1 [''b'']])
     = [ex_entry 2 [''a''], ex_entry 1 [''b'']] \<and>
   ex_match (m_regex (ex_entry 2 [''a''])) ''SELECT 1'' < 0 \<and>
   0 \<le> ex_match (m_regex (ex_entry 1 [''b''])) ''SELECT 1'' \<and>
   m_servers (ex_entry 1 [''b'']) = [''b''] \<and>
   hint (rq_down (routeQuery ex_match (ex_instance [ex_entry 2 [''a''], ex_entry 1 [''b'']])
           ex_session ex_query)) = [] \<and>
   hint (rq_down (routeQuery ex_match (ex_instance [ex_entry 2 [''a''], ex_entry 1 [''b'']])
           ex_session ex_query)) \<noteq> named_hint ''b'' # hint ex_query"
  by (simp add: ex_session_def ex_query_def ex_instance_def ex_entry_def ex_match_def
      modutil_is_SQL_def modutil_extract_SQL_def PCRE2_ERROR_NOMATCH_def routeQuery_def)

subsection \<open>Session counters (C10)\<close>

lemma routeQuery_active: "active (rq_session (routeQuery pm inst s q)) = active s"
  by (simp add: routeQuery_def Let_def split: option.splits prod.splits)

lemma routeQuery_step:
  "counted s q \<Longrightarrow>
     (n_diverted (rq_session (routeQuery pm inst s q)) = n_diverted s + 1 \<and>
      n_undiverted (rq_session (routeQuery pm inst s q)) = n_undiverted s) \<or>
     (n_diverted (rq_session (routeQuery pm inst s q)) = n_diverted s \<and>
      n_undiverted (rq_session (routeQuery pm inst s q)) = n_undiverted s + 1)"
  by (auto simp: counted_def routeQuery_def Let_def split: option.splits prod.splits)

lemma routeQuery_skip:
  "\<not> counted s q \<Longrightarrow> rq_session (routeQuery pm inst s q) = s"
  by (auto simp: counted_def routeQuery_def Let_def split: option.splits prod.splits)

lemma counted_cong: "active s' = active s \<Longrightarrow> counted s' = counted s"
  by (simp add: counted_def fun_eq_iff)

lemma route_all_counts:
  "\<exists>d u. d + u = length (filter (counted s) qs) \<and>
     n_diverted (snd (route_all pm inst s qs)) = n_diverted s + of_nat d \<and>
     n_undiverted (snd (route_all pm inst s qs)) = n_undiverted s + of_nat u"
proof (induction qs arbitrary: inst s)
  case Nil
  show ?case by simp
next
  case (Cons q qs)
  let ?r = "routeQuery pm inst s q"
  have cc: "counted (rq_session ?r) = counted s"
    by (rule counted_cong) (rule routeQuery_active)
  obtain d u where du: "d + u = length (filter (counted s) qs)"
    "n_diverted (snd (route_all pm (rq_instance ?r) (rq_session ?r) qs))
       = n_diverted (rq_session ?r) + of_nat d"
    "n_undiverted (snd (route_all pm (rq_instance ?r) (rq_session ?r) qs))
       = n_undiverted (rq_session ?r) + of_nat u"
    using Cons.IH [where s = "rq_session ?r" and inst = "rq_instance ?r"] cc by auto
  show ?case
  proof (cases "counted s q")
    case False
    then have "rq_session ?r = s" by (rule routeQuery_skip)
    with du False show ?thesis by (auto simp: Let_def)
  next
    case True
    from routeQuery_step [OF True, of pm inst]
    show ?thesis
    proof
      assume a: "n_diverted (rq_session ?r) = n_diverted s + 1 \<and>
                 n_undiverted (rq_session ?r) = n_undiverted s"
      show ?thesis
        apply (rule exI [of _ "Suc d"], rule exI [of _ u])
        using du a True by (simp add: Let_def)
    next
      assume a: "n_diverted (rq_session ?r) = n_diverted s \<and>
                 n_undiverted (rq_session ?r) = n_undiverted s + 1"
      show ?thesis
        apply (rule exI [of _ d], rule exI [of _ "Suc u"])
        using du a True by (simp add: Let_def)
    qed
  qed
qed

lemma sint_of_nat_small: "n < 2 ^ 31 \<Longrightarrow> sint (of_nat n :: 32 word) = int n"
proof -
  assume "n < 2 ^ 31"
  then have b: "int n < 2 ^ 31"
    by (simp add: nat_less_numeral_power_cancel_iff flip: of_nat_less_iff)
  have "sint (of_nat n :: 32 word) = sint (word_of_int (int n) :: 32 word)" by simp
  also have "\<dots> = (int n + 2 ^ (LENGTH(32) - 1)) mod 2 ^ LENGTH(32) - 2 ^ (LENGTH(32) - 1)"
    by (rule int_word_sint)
  also have "\<dots> = int n" using b by simp
  finally show ?thesis .
qed

lemma newSession_counters:
  "n_diverted (newSession inst c) = 0 \<and> n_undiverted (newSession inst c) = 0"
  by (simp add: newSession_def Let_def split: option.splits)

text \<open>
  C10, as amended. On an active session, a \<^verbatim>\<open>routeQuery\<close> call with an SQL statement (whose
  text is extracted) increments exactly one session counter by one and leaves the other
  as it is: \<open>n_diverted\<close> when \<^verbatim>\<open>find_servers\<close> reports a match, \<open>n_undiverted\<close>
  when it reports no match or a matching error. On an inactive session, or with a buffer
  that is not SQL, both counters keep their values. Hence over any sequence of calls the
  sum of the two counters grows by the number of statements processed while active (in
  the 32-bit arithmetic of the counters), and for a new session the counters, read as
  C \<^verbatim>\<open>int\<close>s, add up to that number as long as it is below \<open>2^31\<close>.
\<close>

theorem session_counters:
  "(\<forall>sql. modutil_is_SQL q \<and> active s \<noteq> 0 \<and> modutil_extract_SQL q = Some sql \<longrightarrow>
      (if 0 \<le> fst (find_servers pm (m_mapping inst) [] sql)
       then n_diverted (rq_session (routeQuery pm inst s q)) = n_diverted s + 1 \<and>
            n_undiverted (rq_session (routeQuery pm inst s q)) = n_undiverted s
       else n_diverted (rq_session (routeQuery pm inst s q)) = n_diverted s \<and>
            n_undiverted (rq_session (routeQuery pm inst s q)) = n_undiverted s + 1)) \<and>
   (active s = 0 \<or> \<not> modutil_is_SQL q \<longrightarrow>
      n_diverted (rq_session (routeQuery pm inst s q)) = n_diverted s \<and>
      n_undiverted (rq_session (routeQuery pm inst s q)) = n_undiverted s) \<and>
   n_diverted (snd (route_all pm inst s qs)) + n_undiverted (snd (route_all pm inst s qs))
     = n_diverted s + n_undiverted s + of_nat (length (filter (counted s) qs)) \<and>
   (length (filter (counted (newSession inst client)) qs) < 2 ^ 31 \<longrightarrow>
      sint (n_diverted (snd (route_all pm inst (newSession inst client) qs)))
      + sint (n_undiverted (snd (route_all pm inst (newSession inst client) qs)))
      = int (length (filter (counted (newSession inst client)) qs)))"
proof (intro conjI allI impI)
  fix sql
  assume "modutil_is_SQL q \<and> active s \<noteq> 0 \<and> modutil_extract_SQL q = Some sql"
  then show "if 0 \<le> fst (find_servers pm (m_mapping inst) [] sql)
       then n_diverted (rq_session (routeQuery pm inst s q)) = n_diverted s + 1 \<and>
            n_undiverted (rq_session (routeQuery pm inst s q)) = n_undiverted s
       else n_diverted (rq_session (routeQuery pm inst s q)) = n_diverted s \<and>
            n_undiverted (rq_session (routeQuery pm inst s q)) = n_undiverted s + 1"
    by (cases "find_servers pm (m_mapping inst) [] sql") (simp add: routeQuery_def)
next
  assume "active s = 0 \<or> \<not> modutil_is_SQL q"
  then have "\<not> counted s q" by (auto simp: counted_def)
  then have "rq_session (routeQuery pm inst s q) = s" by (rule routeQuery_skip)
  then show "n_diverted (rq_session (routeQuery pm inst s q)) = n_diverted s"
    and "n_undiverted (rq_session (routeQuery pm inst s q)) = n_undiverted s"
    by simp_all
next
  from route_all_counts [of s qs pm inst]
  obtain d u where du: "d + u = length (filter (counted s) qs)"
    "n_diverted (snd (route_all pm inst s qs)) = n_diverted s + of_nat d"
    "n_undiverted (snd (route_all pm inst s qs)) = n_undiverted s + of_nat u"
    by auto
  have "(of_nat (length (filter (counted s) qs)) :: 32 word) = of_nat d + of_nat u"
    by (simp flip: du(1))
  with du(2,3)
  show "n_diverted (snd (route_all pm inst s qs)) + n_undiverted (snd (route_all pm inst s qs))
     = n_diverted s + n_undiverted s + of_nat (length (filter (counted s) qs))"
    by simp
next
  let ?s = "newSession inst client"
  assume small: "length (filter (counted ?s) qs) < 2 ^ 31"
  from route_all_counts [of ?s qs pm inst]
  obtain d u where du: "d + u = length (filter (counted ?s) qs)"
    "n_diverted (snd (route_all pm inst ?s qs)) = of_nat d"
    "n_undiverted (snd (route_all pm inst ?s qs)) = of_nat u"
    by (auto simp: newSession_counters)
  from du(1) small have "d < 2 ^ 31" and "u < 2 ^ 31" by simp_all
  then have "sint (of_nat d :: 32 word) = int d" and "sint (of_nat u :: 32 word) = int u"
    by (simp_all add: sint_of_nat_small)
  with du show "sint (n_diverted (snd (route_all pm inst ?s qs)))
      + sint (n_undiverted (snd (route_all pm inst ?s qs)))
      = int (length (filter (counted ?s) qs))"
    by simp
qed

lemma routeQuery_mapping:
  "m_mapping (rq_instance (routeQuery pm inst s q)) = m_mapping inst"
  by (simp add: routeQuery_def Let_def split: option.splits prod.splits)

text \<open>A run of \<open>n\<close> statements that all match moves \<open>n_diverted\<close> by \<open>n\<close>.\<close>

lemma route_all_replicate_match:
  assumes "modutil_is_SQL q" and "modutil_extract_SQL q = Some sql"
  shows "active s \<noteq> 0 \<Longrightarrow> 0 \<le> fst (find_servers pm (m_mapping inst) [] sql) \<Longrightarrow>
     n_diverted (snd (route_all pm inst s (replicate n q))) = n_diverted s + of_nat n \<and>
     n_undiverted (snd (route_all pm inst s (replicate n q))) = n_undiverted s"
proof (induction n arbitrary: inst s)
  case 0
  show ?case by simp
next
  case (Suc n)
  let ?r = "routeQuery pm inst s q"
  have st: "n_diverted (rq_session ?r) = n_diverted s + 1 \<and>
            n_undiverted (rq_session ?r) = n_undiverted s"
    using assms Suc.prems
    by (cases "find_servers pm (m_mapping inst) [] sql") (simp add: routeQuery_def)
  have "active (rq_session ?r) \<noteq> 0" using Suc.prems(1) by (simp add: routeQuery_active)
  moreover have "0 \<le> fst (find_servers pm (m_mapping (rq_instance ?r)) [] sql)"
    using Suc.prems(2) by (simp add: routeQuery_mapping)
  ultimately have
    "n_diverted (snd (route_all pm (rq_instance ?r) (rq_session ?r) (replicate n q)))
       = n_diverted (rq_session ?r) + of_nat n \<and>
     n_undiverted (snd (route_all pm (rq_instance ?r) (rq_session ?r) (replicate n q)))
       = n_undiverted (rq_session ?r)"
    by (rule Suc.IH)
  with st show ?case by (simp add: Let_def)
qed

text \<open>
  The theorem at a concrete run of a new session: a statement that matches, a packet
  that is not SQL, and a statement that matches.
\<close>

theorem session_counters_witness:
  "modutil_is_SQL ex_query \<and> active ex_session \<noteq> 0 \<and>
   modutil_extract_SQL ex_query = Some ''SELECT 1'' \<and>
   n_diverted (rq_session (routeQuery ex_match (ex_instance [ex_entry 1 [''b'']])
      ex_session ex_query)) = 1 \<and>
   n_undiverted (rq_session (routeQuery ex_match (ex_instance [ex_entry 1 [''b'']])
      ex_session ex_query)) = 0 \<and>
   sint (n_diverted (snd (route_all ex_match (ex_instance [ex_entry 1 [''b'']])
      (newSession (ex_instance [ex_entry 1 [''b'']]) ex_client)
      [ex_query, ex_packet, ex_query])))
   + sint (n_undiverted (snd (route_all ex_match (ex_instance [ex_entry 1 [''b'']])
      (newSession (ex_instance [ex_entry 1 [''b'']]) ex_client)
      [ex_query, ex_packet, ex_query]))) = 2"
  using session_counters [of ex_query ex_session ex_match "ex_instance [ex_entry 1 [''b'']]"
      "[ex_query, ex_packet, ex_query]" ex_client]
  by (simp add: ex_session_def ex_query_def ex_packet_def ex_instance_def ex_entry_def
      ex_match_def ex_client_def modutil_is_SQL_def modutil_extract_SQL_def
      PCRE2_ERROR_NOMATCH_def counted_def newSession_def)

text \<open>
  C10 as it is stated fails once a counter passes \<^verbatim>\<open>INT_MAX\<close>. A new session
  processes \<open>2^31\<close> statements that all match; every one of them is counted, and
  afterwards \<open>n_diverted\<close>, read as the C \<^verbatim>\<open>int\<close> it is, holds \<open>-2^31\<close> and
  \<open>n_undiverted\<close> holds 0, so their sum is not the number of statements processed.
\<close>

theorem session_counters_counterexample:
  "length (filter (counted (newSession (ex_instance [ex_entry 1 [''b'']]) ex_client))
      (replicate 2147483648 ex_query)) = 2147483648 \<and>
   sint (n_diverted (snd (route_all ex_match (ex_instance [ex_entry 1 [''b'']])
      (newSession (ex_instance [ex_entry 1 [''b'']]) ex_client)
      (replicate 2147483648 ex_query)))) = - 2147483648 \<and>
   sint (n_undiverted (snd (route_all ex_match (ex_instance [ex_entry 1 [''b'']])
      (newSession (ex_instance [ex_entry 1 [''b'']]) ex_client)
      (replicate 2147483648 ex_query)))) = 0 \<and>
   sint (n_diverted (snd (route_all ex_match (ex_instance [ex_entry 1 [''b'']])
      (newSession (ex_instance [ex_entry 1 [''b'']]) ex_client)
      (replicate 2147483648 ex_query))))
   + sint (n_undiverted (snd (route_all ex_match (ex_instance [ex_entry 1 [''b'']])
      (newSession (ex_instance [ex_entry 1 [''b'']]) ex_client)
      (replicate 2147483648 ex_query))))
   \<noteq> int (length (filter (counted (newSession (ex_instance [ex_entry 1 [''b'']]) ex_client))
      (replicate 2147483648 ex_query)))"
proof -
  let ?I = "ex_instance [ex_entry 1 [''b'']]"
  let ?s = "newSession ?I ex_client"
  let ?n = "2147483648 :: nat"
  have act: "active ?s \<noteq> 0"
    by (simp add: newSession_def ex_instance_def ex_client_def)
  have sq: "modutil_is_SQL ex_query" and ex: "modutil_extract_SQL ex_query = Some ''SELECT 1''"
    by (simp_all add: modutil_is_SQL_def modutil_extract_SQL_def ex_query_def)
  have fnd: "0 \<le> fst (find_servers ex_match (m_mapping ?I) [] ''SELECT 1'')"
    by (simp add: ex_instance_def ex_entry_def ex_match_def)
  have cnt: "counted ?s ex_query" using act sq ex by (simp add: counted_def)
  then have len: "length (filter (counted ?s) (replicate ?n ex_query)) = ?n"
    by simp
  from route_all_replicate_match [OF sq ex act fnd, of ?n]
  have d: "n_diverted (snd (route_all ex_match ?I ?s (replicate ?n ex_query))) = of_nat ?n"
    and u: "n_undiverted (snd (route_all ex_match ?I ?s (replicate ?n ex_query))) = 0"
    by (simp_all add: newSession_counters)
  have sd: "sint (of_nat ?n :: 32 word) = - 2147483648" by simp
  show ?thesis
    unfolding len d u sd by simp
qed

subsection \<open>The source address (C9)\<close>

lemma check_bytes_eq:
  "check_bytes cs n =
     (if \<forall>c\<in>set cs. host_byte c then Some (n + int (count_list cs CHR ''.'')) else None)"
  by (induction cs arbitrary: n) (auto simp: host_byte_def)

lemma validate_ip_address_iff:
  "validate_ip_address host \<longleftrightarrow>
     count_list host CHR ''.'' = 3 \<and> host \<noteq> [] \<and> hd host \<noteq> CHR ''%'' \<and> hd host \<noteq> CHR ''.'' \<and>
     last host \<noteq> CHR ''.'' \<and> length host \<le> INET_ADDRSTRLEN \<and> (\<forall>c\<in>set host. host_byte c)"
  by (cases host) (auto simp: validate_ip_address_def check_bytes_eq split: if_splits)

lemma format_loop_netmask:
  "bytes + int (count_list p CHR ''.'') \<le> 3 \<Longrightarrow>
     snd (format_loop p bytes nm) = nm - 8 * int (count_list p CHR ''%'')"
proof (induction p arbitrary: bytes nm)
  case Nil
  show ?case by simp
next
  case (Cons c p)
  have b: "bytes \<le> 3" using Cons.prems by (simp split: if_splits)
  show ?case
  proof (cases "c = CHR ''%''")
    case True
    with Cons.prems have "bytes + int (count_list p CHR ''.'') \<le> 3" by simp
    from Cons.IH [OF this, of "nm - 8"] True b show ?thesis
      by (simp add: split_beta)
  next
    case False
    let ?b = "if c = CHR ''.'' then bytes + 1 else bytes"
    from Cons.prems have "?b + int (count_list p CHR ''.'') \<le> 3"
      by (simp split: if_splits)
    from Cons.IH [OF this, of nm] False b show ?thesis
      by (simp add: split_beta Let_def)
  qed
qed

lemma set_source_address_netmask:
  assumes "validate_ip_address host"
  shows "netmask (set_source_address setip host) = 32 - 8 * int (count_list host CHR ''%'')"
proof (cases "CHR ''%'' \<in> set host")
  case False
  then have "count_list host CHR ''%'' = 0" by (simp add: count_list_0_iff)
  with assms False show ?thesis by (simp add: set_source_address_def)
next
  case True
  from assms have "0 + int (count_list host CHR ''.'') \<le> 3"
    by (simp add: validate_ip_address_iff)
  from format_loop_netmask [OF this, of 32]
  have "snd (format_loop host 0 32) = 32 - 8 * int (count_list host CHR ''%'')" .
  with assms True show ?thesis
    by (cases "format_loop host 0 32")
       (simp add: set_source_address_def split: option.splits)
qed

text \<open>
  What \<^verbatim>\<open>newSession\<close> makes of a source whose address is \<^verbatim>\<open>NULL\<close>: the check
  against the client is skipped, and the session is set up as it is without a source.
\<close>

lemma newSession_unusable_source:
  "address src = None \<Longrightarrow>
     newSession (inst\<lparr>m_source := Some src\<rparr>) client = newSession (inst\<lparr>m_source := None\<rparr>) client"
  by (simp add: newSession_def Let_def split: option.splits)

text \<open>
  C9, as amended. \<^verbatim>\<open>validate_ip_address\<close> accepts a host string exactly when it
  contains three dots, does not begin with \<^verbatim>\<open>%\<close> or a dot, does not end with a dot,
  is at most \<^verbatim>\<open>INET_ADDRSTRLEN\<close> (16) characters long and consists of digits, dots
  and \<^verbatim>\<open>%\<close> only. For an accepted string the netmask that
  \<^verbatim>\<open>set_source_address\<close> stores is 32 minus 8 for each \<^verbatim>\<open>%\<close> in the string. For
  a rejected string the address field of the struct that \<^verbatim>\<open>set_source_address\<close>
  returns is \<^verbatim>\<open>NULL\<close>, and the source is then not used: \<^verbatim>\<open>newSession\<close> skips the
  check of the client against it and sets up the session of every client exactly as it
  does when no source is configured, so the source restricts no client.
\<close>

theorem source_address_validation:
  "(validate_ip_address host \<longleftrightarrow>
      count_list host CHR ''.'' = 3 \<and> host \<noteq> [] \<and> hd host \<noteq> CHR ''%'' \<and>
      hd host \<noteq> CHR ''.'' \<and> last host \<noteq> CHR ''.'' \<and> length host \<le> INET_ADDRSTRLEN \<and>
      (\<forall>c\<in>set host. isdigit c \<or> c = CHR ''.'' \<or> c = CHR ''%'')) \<and>
   (validate_ip_address host \<longrightarrow>
      netmask (set_source_address setip host) = 32 - 8 * int (count_list host CHR ''%'')) \<and>
   (\<not> validate_ip_address host \<longrightarrow>
      address (set_source_address setip host) = None \<and>
      newSession (inst\<lparr>m_source := Some (set_source_address setip host)\<rparr>) client
        = newSession (inst\<lparr>m_source := None\<rparr>) client)"
proof (intro conjI impI)
  show "validate_ip_address host \<longleftrightarrow>
      count_list host CHR ''.'' = 3 \<and> host \<noteq> [] \<and> hd host \<noteq> CHR ''%'' \<and>
      hd host \<noteq> CHR ''.'' \<and> last host \<noteq> CHR ''.'' \<and> length host \<le> INET_ADDRSTRLEN \<and>
      (\<forall>c\<in>set host. isdigit c \<or> c = CHR ''.'' \<or> c = CHR ''%'')"
    by (simp add: validate_ip_address_iff host_byte_def)
next
  assume "validate_ip_address host"
  then show "netmask (set_source_address setip host)
      = 32 - 8 * int (count_list host CHR ''%'')"
    by (rule set_source_address_netmask)
next
  assume "\<not> validate_ip_address host"
  then show a: "address (set_source_address setip host) = None"
    by (simp add: set_source_address_def)
  show "newSession (inst\<lparr>m_source := Some (set_source_address setip host)\<rparr>) client
        = newSession (inst\<lparr>m_source := None\<rparr>) client"
    by (rule newSession_unusable_source) (rule a)
qed

text \<open>
  The theorem at an accepted string with two wildcards and at a rejected string with two
  dots, whose source leaves the session of the client active.
\<close>

theorem source_address_validation_witness:
  "validate_ip_address ''192.168.%.%'' \<and>
   netmask (set_source_address ex_setip ''192.168.%.%'') = 16 \<and>
   \<not> validate_ip_address ''10.0.1'' \<and>
   address (set_source_address ex_setip ''10.0.1'') = None \<and>
   active (newSession ((ex_instance [])\<lparr>m_source := Some (set_source_address ex_setip ''10.0.1'')\<rparr>)
             ex_client) = 1"
  using source_address_validation [of "''192.168.%.%''" ex_setip "ex_instance []" ex_client]
    source_address_validation [of "''10.0.1''" ex_setip "ex_instance []" ex_client]
  by (simp add: INET_ADDRSTRLEN_def isdigit_def ex_instance_def ex_client_def newSession_def)

text \<open>
  C9 as it is stated fails in its last part. The string \<^verbatim>\<open>%\<close> is rejected and its
  address is recorded as \<^verbatim>\<open>NULL\<close>, yet the filter does not treat the source as one
  that matches no client: the sessions of two different clients are both active under
  it, where under the valid source \<^verbatim>\<open>10.0.0.8\<close> the session of the client at
  \<^verbatim>\<open>10.0.0.7\<close> is not.
\<close>

theorem source_address_validation_counterexample:
  "\<not> validate_ip_address ''%'' \<and>
   address (set_source_address ex_setip ''%'') = None \<and>
   active (newSession ((ex_instance [])\<lparr>m_source := Some (set_source_address ex_setip ''%'')\<rparr>)
             ex_client) = 1 \<and>
   active (newSession ((ex_instance [])\<lparr>m_source := Some (set_source_address ex_setip ''%'')\<rparr>)
             \<lparr>remote = Some ''172.16.3.9'', user = Some ''app'', client_ipv4 = 0x090310AC\<rparr>) = 1 \<and>
   validate_ip_address ''10.0.0.8'' \<and>
   active (newSession
      ((ex_instance [])\<lparr>m_source := Some (set_source_address ex_setip ''10.0.0.8'')\<rparr>)
      ex_client) = 0"
  by (simp add: validate_ip_address_def INET_ADDRSTRLEN_def isdigit_def set_source_address_def
      ex_instance_def ex_client_def newSession_def check_source_host_def)

subsection \<open>Creating the instance (C8)\<close>

lemma form_loop_eq:
  "form_loop cmp params names st =
     \<lparr>fs_mapping = fs_mapping st @ List.map_filter (entry_of cmp) (configured_pairs params names),
      fs_error = (fs_error st \<or> (\<exists>p\<in>set (configured_pairs params names). pair_fails cmp p)),
      fs_freed = fs_freed st @ List.map_filter (freed_early cmp) (configured_pairs params names)\<rparr>"
proof (induction names arbitrary: st)
  case Nil
  show ?case by (simp add: configured_pairs_def List.map_filter_simps)
next
  case (Cons n names)
  obtain zm zs where n: "n = (zm, zs)" by (cases n)
  show ?case
    unfolding n
    by (simp add: Cons.IH configured_pairs_def List.map_filter_simps entry_of_def
        freed_early_def pair_fails_def add_servers_def Let_def split: option.splits)
qed

lemma mset_compiled_split:
  "mset (List.map_filter (freed_early cmp) ps)
     + mset (map m_regex (List.map_filter (entry_of cmp) ps))
   = mset (List.map_filter (\<lambda>p. cmp (fst p)) ps)"
  by (induction ps)
     (auto simp: List.map_filter_simps entry_of_def freed_early_def split: option.splits)

lemma entries_all:
  "\<forall>p\<in>set ps. \<not> pair_fails cmp p \<Longrightarrow>
     map m_match (List.map_filter (entry_of cmp) ps) = map fst ps \<and>
     map (\<lambda>e. Some (m_regex e)) (List.map_filter (entry_of cmp) ps) = map (\<lambda>p. cmp (fst p)) ps \<and>
     map m_servers (List.map_filter (entry_of cmp) ps) = map (\<lambda>p. strtok_all (snd p) []) ps \<and>
     List.map_filter (freed_early cmp) ps = []"
  by (induction ps)
     (auto simp: List.map_filter_simps entry_of_def freed_early_def pair_fails_def
        split: option.splits)

text \<open>
  C8. Call a pair of parameters configured when both its match text and its server text
  are set (\<^verbatim>\<open>form_regex_server_mapping\<close> skips the others with a notice). If for any
  configured pair the regex fails to compile or the server text yields no server name,
  the mapping comes back empty, the regexes handed to \<^verbatim>\<open>pcre2_code_free\<close> are
  exactly the regexes that were compiled, and \<^verbatim>\<open>createInstance\<close> returns
  \<^verbatim>\<open>NULL\<close>. Whenever \<^verbatim>\<open>createInstance\<close> returns an instance, no configured pair
  has failed, the mapping of the instance has one entry per configured pair, in order,
  with that pair's text, compiled regex and server names, and no regex was freed.
\<close>

theorem createInstance_all_or_nothing:
  "((\<exists>p\<in>set (configured_pairs params names). pair_fails cmp p) \<longrightarrow>
      fst (form_regex_server_mapping cmp names params) = [] \<and>
      mset (snd (form_regex_server_mapping cmp names params))
        = mset (compiled_regexes cmp params names) \<and>
      createInstance cmp setip names params
        = (None, snd (form_regex_server_mapping cmp names params))) \<and>
   (\<forall>inst. fst (createInstance cmp setip names params) = Some inst \<longrightarrow>
      (\<forall>p\<in>set (configured_pairs params names). \<not> pair_fails cmp p) \<and>
      map m_match (m_mapping inst) = map fst (configured_pairs params names) \<and>
      map (\<lambda>e. Some (m_regex e)) (m_mapping inst)
        = map (\<lambda>p. cmp (fst p)) (configured_pairs params names) \<and>
      map m_servers (m_mapping inst)
        = map (\<lambda>p. strtok_all (snd p) []) (configured_pairs params names) \<and>
      snd (createInstance cmp setip names params) = [])"
proof (intro conjI impI allI)
  assume f: "\<exists>p\<in>set (configured_pairs params names). pair_fails cmp p"
  then show e: "fst (form_regex_server_mapping cmp names params) = []"
    by (simp add: form_regex_server_mapping_def form_loop_eq Let_def)
  from f show "mset (snd (form_regex_server_mapping cmp names params))
      = mset (compiled_regexes cmp params names)"
    using mset_compiled_split [of cmp "configured_pairs params names"]
    by (simp add: form_regex_server_mapping_def form_loop_eq Let_def compiled_regexes_def)
  from e show "createInstance cmp setip names params
      = (None, snd (form_regex_server_mapping cmp names params))"
    by (simp add: createInstance_def Let_def split_beta)
next
  fix inst
  assume a: "fst (createInstance cmp setip names params) = Some inst"
  let ?cps = "configured_pairs params names"
  have ok: "\<forall>p\<in>set ?cps. \<not> pair_fails cmp p"
  proof (rule ccontr)
    assume "\<not> (\<forall>p\<in>set ?cps. \<not> pair_fails cmp p)"
    then have "fst (form_regex_server_mapping cmp names params) = []"
      by (simp add: form_regex_server_mapping_def form_loop_eq Let_def)
    with a show False by (simp add: createInstance_def Let_def split_beta)
  qed
  then have m: "form_regex_server_mapping cmp names params =
      (List.map_filter (entry_of cmp) ?cps, List.map_filter (freed_early cmp) ?cps)"
    by (simp add: form_regex_server_mapping_def form_loop_eq Let_def)
  from a m have mi: "m_mapping inst = List.map_filter (entry_of cmp) ?cps"
    by (auto simp: createInstance_def Let_def split: if_splits)
  note ea = entries_all [OF ok]
  show "\<forall>p\<in>set ?cps. \<not> pair_fails cmp p" by (rule ok)
  show "map m_match (m_mapping inst) = map fst ?cps" using ea mi by simp
  show "map (\<lambda>e. Some (m_regex e)) (m_mapping inst) = map (\<lambda>p. cmp (fst p)) ?cps"
    using ea mi by simp
  show "map m_servers (m_mapping inst) = map (\<lambda>p. strtok_all (snd p) []) ?cps"
    using ea mi by simp
  show "snd (createInstance cmp setip names params) = []"
    using ea m by (simp add: createInstance_def Let_def)
qed

text \<open>
  The theorem at two configurations: one whose second pattern does not compile (the
  regex of the first pair is compiled, and freed again), and one where a pair without
  servers is skipped and the instance holds the one configured pair.
\<close>

theorem createInstance_all_or_nothing_witness:
  "pair_fails ex_compile (''('', ''s3'') \<and>
   createInstance ex_compile ex_setip ex_names
     (ex_params [(''match'', ''^SELECT''), (''server'', ''s1,s2''),
                 (''match01'', ''(''), (''server01'', ''s3'')]) = (None, [7]) \<and>
   fst (createInstance ex_compile ex_setip ex_names
     (ex_params [(''match'', ''^SELECT''), (''server'', ''s1,s2''), (''match02'', ''('')]))
   = Some \<lparr>m_user = [], m_source = None,
        m_mapping = [\<lparr>m_match = ''^SELECT'', m_regex = 7, m_servers = [''s1'', ''s2'']\<rparr>],
        m_ovector_size = 1, m_total_diverted = 0, m_total_undiverted = 0\<rparr>"
  using createInstance_all_or_nothing
      [of "ex_params [(''match'', ''^SELECT''), (''server'', ''s1,s2''),
                      (''match01'', ''(''), (''server01'', ''s3'')]"
          ex_names ex_compile ex_setip]
    createInstance_all_or_nothing
      [of "ex_params [(''match'', ''^SELECT''), (''server'', ''s1,s2''), (''match02'', ''('')]"
          ex_names ex_compile ex_setip]
  by (simp add: pair_fails_def ex_compile_def ex_names_def ex_params_def createInstance_def
      form_regex_server_mapping_def add_servers_def configured_pairs_def compiled_regexes_def)

section \<open>Theorems: luafilter\<close>

lemma call_script_session:
  assumes "routeQuery_fn L = Some f" and "f fq = Inr rs"
  shows "snd (call_script L fq 1 (queue, True)) =
           (case rs of
              [] \<Rightarrow> (queue, True)
            | v # _ \<Rightarrow>
                if lua_isstring v then (modutil_create_query (lua_tostring v), True)
                else if lua_isboolean v then (queue, lua_toboolean v)
                else (queue, True))"
  using assms
  by (cases rs)
     (simp_all add: call_script_def lua_call_routeQuery_def interpret_top_def lua_gettop_def
        lua_isstring_def lua_isboolean_def)

lemma call_script_global:
  "stack G = [] \<Longrightarrow> snd (call_script G fq 0 fr) = fr"
  by (simp add: call_script_def lua_call_routeQuery_def interpret_top_def lua_gettop_def
      lua_pop_minus1_def split: option.splits sum.splits)

text \<open>
  As long as there is no global Lua state, or the stack of the global state is empty, the
  return value of the session script's \<^verbatim>\<open>routeQuery\<close> is interpreted as C2 says:
  \<^verbatim>\<open>false\<close> writes the error packet to the client, a string is routed as a new
  query, and \<^verbatim>\<open>nil\<close> or no value routes the original buffer.
\<close>

lemma luafilter_routeQuery_session_only:
  assumes "modutil_is_SQL queue \<or> modutil_is_SQL_prepare queue"
      and "modutil_get_SQL queue = Some fq"
      and "lua_state my_session = Some L" and "routeQuery_fn L = Some f" and "f fq = Inr rs"
      and "\<forall>G. global_lua_state my_instance = Some G \<longrightarrow> stack G = []"
  shows "\<exists>r. luafilter_routeQuery my_instance my_session queue = Inr r \<and>
           (rs = LBoolean False # rest \<longrightarrow>
              lf_action r = WriteToClient
                (modutil_create_mysql_err_msg 1 0 1045 ''28000'' ''Access denied.'')) \<and>
           (rs = LString t # rest \<longrightarrow> lf_action r = RouteDown (modutil_create_query t)) \<and>
           (rs = [] \<or> rs = LNil # rest \<longrightarrow> lf_action r = RouteDown queue)"
proof -
  obtain L' fr where cs: "call_script L fq 1 (queue, True) = (L', fr)"
    by (cases "call_script L fq 1 (queue, True)")
  from call_script_session [OF assms(4,5), of queue] cs
  have fr: "fr = (case rs of
              [] \<Rightarrow> (queue, True)
            | v # _ \<Rightarrow>
                if lua_isstring v then (modutil_create_query (lua_tostring v), True)
                else if lua_isboolean v then (queue, lua_toboolean v)
                else (queue, True))"
    by simp
  show ?thesis
  proof (cases "global_lua_state my_instance")
    case None
    then show ?thesis
      using assms(1,2,3) cs fr
      by (auto simp: luafilter_routeQuery_def Let_def lua_isstring_def lua_isboolean_def
          lua_toboolean_def lua_tostring_def)
  next
    case (Some G)
    with assms(6) have "stack G = []" by simp
    from call_script_global [OF this, of fq fr]
    obtain G' where "call_script G fq 0 fr = (G', fr)"
      by (cases "call_script G fq 0 fr") simp
    then show ?thesis
      using assms(1,2,3) cs fr Some
      by (auto simp: luafilter_routeQuery_def Let_def lua_isstring_def lua_isboolean_def
          lua_toboolean_def lua_tostring_def)
  qed
qed

text \<open>
  C2 at a global state whose stack holds a value. The session script's \<^verbatim>\<open>routeQuery\<close>
  returns \<^verbatim>\<open>false\<close>, so by C2 the query is not routed and the error packet is
  written, which is what happens without the global script. With the global script the
  block after the global call, made with no results requested, reads the top of the
  global stack, finds \<^verbatim>\<open>true\<close> there and sets \<open>route\<close> again: the query is routed.
\<close>

theorem luafilter_routeQuery_global_stack:
  "map_sum id lf_action
     (luafilter_routeQuery (ex_lua_instance (Some ex_global_state))
        (ex_lua_session ex_deny_state) ex_query)
   = Inr (RouteDown ex_query) \<and>
   map_sum id lf_action
     (luafilter_routeQuery (ex_lua_instance None) (ex_lua_session ex_deny_state) ex_query)
   = Inr (WriteToClient (modutil_create_mysql_err_msg 1 0 1045 ''28000'' ''Access denied.''))"
  by (simp add: luafilter_routeQuery_def ex_lua_instance_def ex_lua_session_def
      ex_deny_state_def ex_global_state_def ex_query_def modutil_is_SQL_def
      modutil_is_SQL_prepare_def modutil_get_SQL_def call_script_def lua_call_routeQuery_def
      interpret_top_def lua_gettop_def lua_isstring_def lua_isboolean_def lua_toboolean_def
      lua_pop_minus1_def Let_def)

section \<open>Theorems: worker messaging\<close>

subsection \<open>Posting (C3)\<close>

text \<open>
  C3. \<^verbatim>\<open>mxs_worker_post_message\<close> returns true exactly when the record
  \<open>(id, arg1, arg2)\<close> was appended to the worker's channel, and false exactly when the
  channel is closed or full. It makes one attempt: on success the worker differs from
  before by that one record at the end of its channel, on failure the worker is as
  before. (That the call does not block shows in the model only as the function being
  total.)
\<close>

theorem post_message_result:
  "(fst (mxs_worker_post_message w i a1 a2) \<longleftrightarrow>
      channel (snd (mxs_worker_post_message w i a1 a2))
        = channel w @ [\<lparr>msg_id = i, arg1 = a1, arg2 = a2\<rparr>]) \<and>
   (\<not> fst (mxs_worker_post_message w i a1 a2) \<longleftrightarrow>
      closed w \<or> capacity w \<le> length (channel w)) \<and>
   (if fst (mxs_worker_post_message w i a1 a2)
    then snd (mxs_worker_post_message w i a1 a2)
           = w\<lparr>channel := channel w @ [\<lparr>msg_id = i, arg1 = a1, arg2 = a2\<rparr>]\<rparr>
    else snd (mxs_worker_post_message w i a1 a2) = w)"
  by (simp add: mxs_worker_post_message_def post_record_def)

text \<open>
  The theorem at a worker with room for one record, at a worker whose channel is full and
  at a worker whose channel is closed.
\<close>

theorem post_message_result_witness:
  "mxs_worker_post_message (ex_worker 1 [] False) MXS_WORKER_MSG_PING 0 0
     = (True, ex_worker 1 [ex_ping] False) \<and>
   mxs_worker_post_message (ex_worker 1 [ex_ping] False) MXS_WORKER_MSG_PING 0 0
     = (False, ex_worker 1 [ex_ping] False) \<and>
   mxs_worker_post_message (ex_worker 1 [] True) MXS_WORKER_MSG_PING 0 0
     = (False, ex_worker 1 [] True)"
  using post_message_result [of "ex_worker 1 [] False" MXS_WORKER_MSG_PING 0 0]
    post_message_result [of "ex_worker 1 [ex_ping] False" MXS_WORKER_MSG_PING 0 0]
    post_message_result [of "ex_worker 1 [] True" MXS_WORKER_MSG_PING 0 0]
  by (simp add: ex_worker_def ex_ping_def mxs_worker_post_message_def post_record_def)

subsection \<open>Broadcast (C4)\<close>

lemma broadcast_loop_eq:
  "broadcast_loop ws m =
     (length (filter (\<lambda>w. fst (post_record w m)) ws), map (\<lambda>w. snd (post_record w m)) ws)"
  by (induction ws) (auto split: prod.splits)

text \<open>
  C4. \<^verbatim>\<open>mxs_worker_broadcast_message\<close> posts to each worker of the registry, in
  order, the message with the given id and the same two arguments: the registry
  afterwards is the old one with each worker replaced by the result of that post, and
  the number returned is the number of workers for which the post returned true. When
  every worker's channel is open and has room, that number is the number of workers.
\<close>

theorem broadcast_message_count:
  "fst (mxs_worker_broadcast_message ws i a1 a2)
     = length (filter (\<lambda>w. fst (mxs_worker_post_message w i a1 a2)) ws) \<and>
   snd (mxs_worker_broadcast_message ws i a1 a2)
     = map (\<lambda>w. snd (mxs_worker_post_message w i a1 a2)) ws \<and>
   ((\<forall>w\<in>set ws. \<not> closed w \<and> length (channel w) < capacity w) \<longrightarrow>
      fst (mxs_worker_broadcast_message ws i a1 a2) = length ws)"
proof (intro conjI impI)
  show c: "fst (mxs_worker_broadcast_message ws i a1 a2)
     = length (filter (\<lambda>w. fst (mxs_worker_post_message w i a1 a2)) ws)"
    by (simp add: mxs_worker_broadcast_message_def mxs_worker_post_message_def
        broadcast_loop_eq)
  show "snd (mxs_worker_broadcast_message ws i a1 a2)
     = map (\<lambda>w. snd (mxs_worker_post_message w i a1 a2)) ws"
    by (simp add: mxs_worker_broadcast_message_def mxs_worker_post_message_def
        broadcast_loop_eq)
  assume "\<forall>w\<in>set ws. \<not> closed w \<and> length (channel w) < capacity w"
  then have "\<forall>w\<in>set ws. fst (mxs_worker_post_message w i a1 a2)"
    by (auto simp: mxs_worker_post_message_def post_record_def)
  then have "filter (\<lambda>w. fst (mxs_worker_post_message w i a1 a2)) ws = ws"
    by (simp add: filter_id_conv)
  with c show "fst (mxs_worker_broadcast_message ws i a1 a2) = length ws"
    by simp
qed

text \<open>
  The theorem at four workers with empty channels, and at four workers of which one has
  a full channel.
\<close>

theorem broadcast_message_count_witness:
  "fst (mxs_worker_broadcast_message
         [ex_worker 10 [] False, ex_worker 10 [] False, ex_worker 10 [] False,
          ex_worker 10 [] False] MXS_WORKER_MSG_PING 0 0) = 4 \<and>
   fst (mxs_worker_broadcast_message
         [ex_worker 10 [] False, ex_worker 1 [ex_ping] False, ex_worker 10 [] False,
          ex_worker 10 [] False] MXS_WORKER_MSG_PING 0 0) = 3"
  using broadcast_message_count
      [of "[ex_worker 10 [] False, ex_worker 10 [] False, ex_worker 10 [] False,
            ex_worker 10 [] False]" MXS_WORKER_MSG_PING 0 0]
    broadcast_message_count
      [of "[ex_worker 10 [] False, ex_worker 1 [ex_ping] False, ex_worker 10 [] False,
            ex_worker 10 [] False]" MXS_WORKER_MSG_PING 0 0]
  by (simp add: ex_worker_def ex_ping_def mxs_worker_post_message_def post_record_def)

subsection \<open>Order of delivery (C6)\<close>

lemma fold_dispatch_channel:
  "channel (fold (\<lambda>m w. dispatch w m) ms w) = channel w"
  by (induction ms arbitrary: w) (simp_all add: dispatch_def split: mxs_worker_msg_id.splits)

lemma wake_inv:
  "dispatched r @ channel (worker r) = sent r
   \<Longrightarrow> dispatched (wake r) @ channel (worker (wake r)) = sent (wake r)"
  by (simp add: wake_def Let_def fold_dispatch_channel)

lemma step_inv: "fifo_inv rs \<Longrightarrow> fifo_inv (step rs e)"
proof (cases e)
  case (Post k m)
  assume "fifo_inv rs"
  then show ?thesis
    unfolding Post fifo_inv_def
    by (auto simp: post_record_def dest!: set_update_subset_insert [THEN subsetD])
next
  case (Wake k)
  assume "fifo_inv rs"
  then show ?thesis
    unfolding Wake fifo_inv_def
    by (auto simp: wake_inv dest!: set_update_subset_insert [THEN subsetD])
qed

lemma run_inv: "fifo_inv rs \<Longrightarrow> fifo_inv (run rs es)"
  unfolding run_def by (induction es arbitrary: rs) (simp_all add: step_inv)

lemma init_inv: "fifo_inv (init_workers n cap)"
  by (simp add: fifo_inv_def init_workers_def)

lemma length_step: "length (step rs e) = length rs"
  by (cases e) (simp_all split: prod.splits)

lemma length_run: "length (run rs es) = length rs"
  unfolding run_def by (induction es arbitrary: rs) (simp_all add: length_step)

lemma run_nth_fifo:
  "k < n \<Longrightarrow>
     dispatched (run (init_workers n cap) es ! k)
       @ channel (worker (run (init_workers n cap) es ! k))
     = sent (run (init_workers n cap) es ! k)"
proof -
  assume "k < n"
  then have "run (init_workers n cap) es ! k \<in> set (run (init_workers n cap) es)"
    by (simp add: length_run init_workers_def)
  with run_inv [OF init_inv, of n cap es] show ?thesis
    by (simp add: fifo_inv_def)
qed

text \<open>
  C6. Start from \<open>n\<close> running workers with empty channels and let posts and wake-ups
  happen in any order \<open>es\<close>. Then for every worker \<open>k\<close> and every posting thread
  \<open>p\<close>, the records of \<open>p\<close> that the loop of \<open>k\<close> has dispatched are, in the order
  of dispatch, an initial part of the records that \<open>p\<close> successfully posted to \<open>k\<close>,
  in the order of posting, and all of them once the channel has been drained. Between
  two threads no order is fixed: the two threads that each post one record to the same
  worker see them dispatched one way under one schedule and the other way under the
  other.
\<close>

theorem per_producer_fifo:
  "(\<forall>k<n. prefix (from_poster p (dispatched (run (init_workers n cap) es ! k)))
                    (from_poster p (sent (run (init_workers n cap) es ! k)))) \<and>
   (\<forall>k<n. channel (worker (run (init_workers n cap) es ! k)) = [] \<longrightarrow>
        from_poster p (dispatched (run (init_workers n cap) es ! k))
          = from_poster p (sent (run (init_workers n cap) es ! k))) \<and>
   map dispatched (run (init_workers 1 10) [Post 0 (ex_msg 1 5), Post 0 (ex_msg 2 6), Wake 0])
     = [[ex_msg 1 5, ex_msg 2 6]] \<and>
   map dispatched (run (init_workers 1 10) [Post 0 (ex_msg 2 6), Post 0 (ex_msg 1 5), Wake 0])
     = [[ex_msg 2 6, ex_msg 1 5]]"
proof (intro conjI allI impI)
  fix k assume k: "k < n"
  from run_nth_fifo [OF k, of cap es]
  show "prefix (from_poster p (dispatched (run (init_workers n cap) es ! k)))
          (from_poster p (sent (run (init_workers n cap) es ! k)))"
    by (metis from_poster_def filter_append prefixI)
next
  fix k assume k: "k < n"
  assume "channel (worker (run (init_workers n cap) es ! k)) = []"
  with run_nth_fifo [OF k, of cap es]
  show "from_poster p (dispatched (run (init_workers n cap) es ! k))
          = from_poster p (sent (run (init_workers n cap) es ! k))"
    by simp
next
  show "map dispatched (run (init_workers 1 10) [Post 0 (ex_msg 1 5), Post 0 (ex_msg 2 6), Wake 0])
     = [[ex_msg 1 5, ex_msg 2 6]]"
    by (simp add: run_def init_workers_def post_record_def wake_def dispatch_def ex_msg_def
        Let_def)
  show "map dispatched (run (init_workers 1 10) [Post 0 (ex_msg 2 6), Post 0 (ex_msg 1 5), Wake 0])
     = [[ex_msg 2 6, ex_msg 1 5]]"
    by (simp add: run_def init_workers_def post_record_def wake_def dispatch_def ex_msg_def
        Let_def)
qed

text \<open>
  The theorem at one worker with a channel of two records: thread 1 posts, thread 2
  posts, a third post of thread 1 finds the channel full, the loop wakes up, and thread
  1 posts once more.
\<close>

theorem per_producer_fifo_witness:
  "from_poster 1 (dispatched (run (init_workers 1 2)
      [Post 0 (ex_msg 1 5), Post 0 (ex_msg 2 6), Post 0 (ex_msg 1 7), Wake 0,
       Post 0 (ex_msg 1 8)] ! 0)) = [ex_msg 1 5] \<and>
   from_poster 1 (sent (run (init_workers 1 2)
      [Post 0 (ex_msg 1 5), Post 0 (ex_msg 2 6), Post 0 (ex_msg 1 7), Wake 0,
       Post 0 (ex_msg 1 8)] ! 0)) = [ex_msg 1 5, ex_msg 1 8] \<and>
   prefix [ex_msg 1 5] [ex_msg 1 5, ex_msg 1 8]"
  using per_producer_fifo [of 1 1 2
      "[Post 0 (ex_msg 1 5), Post 0 (ex_msg 2 6), Post 0 (ex_msg 1 7), Wake 0,
        Post 0 (ex_msg 1 8)]"]
  by (simp add: run_def init_workers_def post_record_def wake_def dispatch_def ex_msg_def
      from_poster_def Let_def)

end
